theory Spec2Isabelle
  imports Main "HOL-Library.Word"
begin

unbundle bit_operations_syntax

section \<open>The data of engines/xeen/sound\_driver.h\<close>

text \<open>
  The header declares the data of the Xeen sound driver and three pieces of code with a
  body: the enumeration \<open>MusicCommand\<close>, the constructor of \<open>RegisterValue\<close> and the
  inline method \<open>isPlaying\<close>. They are embedded from the header.
  C++ member names start with an underscore, which an Isabelle name cannot: the
  underscore is dropped (\<open>_musDataPtr\<close> is \<open>musDataPtr\<close>), and \<open>_value\<close> is \<open>regVal\<close>.
  A \<open>byte\<close> and a \<open>uint8\<close> are 8-bit words; an \<open>int\<close> and a \<open>uint\<close> are 32-bit words,
  read with \<open>sint\<close> and \<open>unat\<close>.
\<close>

type_synonym byte = "8 word"

definition CHANNEL_COUNT :: nat where
  "CHANNEL_COUNT = 9"

text \<open>\<open>enum MusicCommand\<close>, with the value of each enumerator.\<close>

datatype MusicCommand = STOP_SONG | RESTART_SONG | SET_VOLUME | GET_STATUS

fun MusicCommand_value :: "MusicCommand \<Rightarrow> 32 word" where
  "MusicCommand_value STOP_SONG = 0"
| "MusicCommand_value RESTART_SONG = 1"
| "MusicCommand_value SET_VOLUME = 0x100"
| "MusicCommand_value GET_STATUS = 0xFFE0"

text \<open>
  A \<open>const byte *\<close>: null, or an offset into a caller-owned blob of bytes. Reading
  outside the blob (or through null) has no value.
\<close>

datatype ptr = nullptr | Ptr "byte list" int

fun ptr_add :: "ptr \<Rightarrow> int \<Rightarrow> ptr" where
  "ptr_add nullptr d = nullptr"
| "ptr_add (Ptr b i) d = Ptr b (i + d)"

fun deref :: "ptr \<Rightarrow> byte option" where
  "deref nullptr = None"
| "deref (Ptr b i) = (if 0 \<le> i \<and> i < int (length b) then Some (b ! nat i) else None)"

text \<open>\<open>struct Subroutine\<close> and its two constructors.\<close>

record Subroutine =
  returnP :: ptr
  jumpP :: ptr

definition Subroutine0 :: Subroutine where
  "Subroutine0 = \<lparr>returnP = nullptr, jumpP = nullptr\<rparr>"

definition Subroutine2 :: "ptr \<Rightarrow> ptr \<Rightarrow> Subroutine" where
  "Subroutine2 retP endP = \<lparr>returnP = retP, jumpP = endP\<rparr>"

text \<open>\<open>struct Channel\<close> and its constructor.\<close>

record Channel =
  changeFrequency :: bool
  freqCtrChange :: "32 word"
  freqChange :: "32 word"
  freqCtr :: "32 word"
  volume :: byte
  scalingValue :: byte
  frequency :: "32 word"

definition Channel0 :: Channel where
  "Channel0 = \<lparr>changeFrequency = False, freqCtrChange = 0, freqChange = 0, freqCtr = 0,
     volume = 0, scalingValue = 0, frequency = 0\<rparr>"

text \<open>
  The fields of \<open>class SoundDriver\<close>. A \<open>Common::Stack\<close> is a list with its top first.
\<close>

record SoundDriver =
  musSubroutines :: "Subroutine list"
  fxSubroutines :: "Subroutine list"
  musCountdownTimer :: "32 word"
  fxCountdownTimer :: "32 word"
  fxDataPtr :: ptr
  musDataPtr :: ptr
  fxStartPtr :: ptr
  musStartPtr :: ptr
  frameCtr :: "32 word"
  channels :: "Channel list"
  exclude7 :: bool
  musicPlaying :: bool
  fxPlaying :: bool

text \<open>
  \<open>bool isPlaying() const { return _musicPlaying; }\<close>: the result, and the driver as the
  call leaves it.
\<close>

definition isPlaying :: "'a SoundDriver_scheme \<Rightarrow> bool \<times> 'a SoundDriver_scheme" where
  "isPlaying s = (musicPlaying s, s)"

text \<open>
  \<open>struct RegisterValue\<close>. Its constructor takes two \<open>int\<close> and assigns them to the
  \<open>uint8\<close> fields: the conversion keeps the low eight bits.
\<close>

record RegisterValue =
  regNum :: byte
  regVal :: byte

definition RegisterValue2 :: "32 word \<Rightarrow> 32 word \<Rightarrow> RegisterValue" where
  "RegisterValue2 r v = \<lparr>regNum = ucast r, regVal = ucast v\<rparr>"

text \<open>
  The fields of \<open>class AdlibSoundDriver\<close>, which extends \<open>SoundDriver\<close>. The chip behind
  \<open>_opl\<close> is write-only: it is the list of the register writes it has received, oldest
  first. A \<open>Common::Queue\<close> is a list with its front first. The mutex is left out.
\<close>

record AdlibSoundDriver = SoundDriver +
  opl :: "RegisterValue list"
  queue :: "RegisterValue list"
  musInstrumentPtrs :: "ptr list"
  fxInstrumentPtrs :: "ptr list"
  field180 :: "32 word"
  field181 :: "32 word"
  field182 :: "32 word"
  musicVolume :: "32 word"
  sfxVolume :: "32 word"

section \<open>The music stream interpreter and the control surface\<close>

text \<open>
  The bodies of the methods that the header declares are in sound\_driver.cpp, which is
  not part of the sources. They are modelled from the specification (sections 3 to 7),
  on the data of the header. Only the music stream is interpreted: the order of the
  sixteen entries of \<open>FX_COMMANDS\<close> is given neither by the header nor by the
  specification.

  The methods that \<open>SoundDriver\<close> declares pure virtual are parameters of the model: a
  record of functions, one per method. Such a method works on the channel table and on
  the fields of the subclass (the part of the driver the specification calls the voice
  driver); it gets the parameter nibble and the bytes that follow the command byte, and
  returns the yield flag, the number of operand bytes it has read and the new voice
  state, or \<open>None\<close> when operand bytes are missing.
\<close>

type_synonym 'a voice = "Channel list \<times> 'a"

type_synonym 'a CommandHook =
  "byte \<Rightarrow> byte list \<Rightarrow> 'a voice \<Rightarrow> (bool \<times> nat \<times> 'a voice) option"

text \<open>
  The pure virtual music commands and \<open>pausePostProcess\<close> of the header. The last field
  is not a method: it stands for the way \<open>cmdChangeFrequency\<close> splits its three operand
  bytes into \<open>(freqCtrChange, freqChange)\<close>, which the specification leaves open.
\<close>

record 'a VoiceDriver =
  musSetInstrument :: "'a CommandHook"
  musSetPitchWheel :: "'a CommandHook"
  musSetPanning :: "'a CommandHook"
  musFade :: "'a CommandHook"
  musStartNote :: "'a CommandHook"
  musSetVolume :: "'a CommandHook"
  musInjectMidi :: "'a CommandHook"
  musPlayInstrument :: "'a CommandHook"
  pausePostProcess :: "'a voice \<Rightarrow> 'a voice"
  glideOperands :: "byte \<Rightarrow> byte \<Rightarrow> byte \<Rightarrow> 32 word \<times> 32 word"

text \<open>A function on the voice state, applied to the driver.\<close>

definition onVoice :: "('a voice \<Rightarrow> 'a voice) \<Rightarrow> 'a SoundDriver_scheme \<Rightarrow> 'a SoundDriver_scheme" where
  "onVoice f s = (case f (channels s, SoundDriver.more s) of
     (chs, m) \<Rightarrow> s\<lparr>channels := chs, SoundDriver.more := m\<rparr>)"

text \<open>The bytes of the blob from a pointer on; none outside the blob.\<close>

fun bytesAt :: "ptr \<Rightarrow> byte list" where
  "bytesAt nullptr = []"
| "bytesAt (Ptr b i) = (if 0 \<le> i \<and> i \<le> int (length b) then drop (nat i) b else [])"

text \<open>
  Modelled from the spec: the end of the music stream, which sound\_driver.cpp implements.
  Section 7: a malformed stream is terminated silently and \<open>playing\<close> cleared; the
  opcode table of section 4.D: "mark stream ended and yield". The result is the yield
  flag and the driver; there is no error value, since no error is surfaced.
\<close>

definition endStream :: "'a SoundDriver_scheme \<Rightarrow> bool \<times> 'a SoundDriver_scheme" where
  "endStream s = (True, s\<lparr>musicPlaying := False\<rparr>)"

text \<open>
  Modelled from the spec: the call of a pure virtual command (opcodes 2, 4, 6, 7, 8, 9,
  A and B of the table in section 4.D), whose dispatch sound\_driver.cpp implements. The
  data pointer advances over the operand bytes the command has read; a command that
  misses operand bytes, or claims more bytes than the blob has, is a malformed stream.
\<close>

definition callHook :: "'a CommandHook \<Rightarrow> byte \<Rightarrow> 'a SoundDriver_scheme \<Rightarrow> bool \<times> 'a SoundDriver_scheme" where
  "callHook h param s =
     (case h param (bytesAt (musDataPtr s)) (channels s, SoundDriver.more s) of
        None \<Rightarrow> endStream s
      | Some (brk, n, chs, m) \<Rightarrow>
          if n \<le> length (bytesAt (musDataPtr s))
          then (brk, s\<lparr>musDataPtr := ptr_add (musDataPtr s) (int n), channels := chs,
                  SoundDriver.more := m\<rparr>)
          else endStream s)"

text \<open>
  Modelled from the spec: \<open>musCallSubroutine\<close>, opcode 0, whose body is in
  sound\_driver.cpp. Two operand bytes, a little-endian signed 16-bit displacement
  relative to the byte following the command byte (section 6, and scenario 4 of section
  8, where the call at offset 0 with displacement 4 enters the body at offset 5 and
  returns to offset 3). It pushes the frame (return pointer, callee) and jumps to the
  callee. The stack holds at most 16 frames (section 8, invariant 2); an overflow and
  missing operand bytes are malformed streams (section 7).
\<close>

definition musCallSubroutine :: "byte \<Rightarrow> 'a SoundDriver_scheme \<Rightarrow> bool \<times> 'a SoundDriver_scheme" where
  "musCallSubroutine param s =
     (let srcP = musDataPtr s in
      case (deref srcP, deref (ptr_add srcP 1)) of
        (Some lo, Some hi) \<Rightarrow>
          if length (musSubroutines s) < 16
          then (let disp = sint (word_cat hi lo :: 16 word);
                    retP = ptr_add srcP 2;
                    jmpP = ptr_add srcP disp
                in (False, s\<lparr>musSubroutines := Subroutine2 retP jmpP # musSubroutines s,
                          musDataPtr := jmpP\<rparr>))
          else endStream s
      | _ \<Rightarrow> endStream s)"

text \<open>Reading the byte at the data pointer and advancing it: \<open>*srcP++\<close>.\<close>

definition nextByte :: "'a SoundDriver_scheme \<Rightarrow> (byte \<times> 'a SoundDriver_scheme) option" where
  "nextByte s =
     (case deref (musDataPtr s) of
        None \<Rightarrow> None
      | Some b \<Rightarrow> Some (b, s\<lparr>musDataPtr := ptr_add (musDataPtr s) 1\<rparr>))"

text \<open>
  Modelled from the spec: the start of a countdown, part of \<open>musSetCountdown\<close> in
  sound\_driver.cpp. The timer is set and the command yields. The header's comment on
  \<open>pausePostProcess\<close> says it runs when a pause countdown starts or is in progress.
\<close>

definition startCountdown :: "'a VoiceDriver \<Rightarrow> byte \<Rightarrow> 'a SoundDriver_scheme \<Rightarrow> bool \<times> 'a SoundDriver_scheme" where
  "startCountdown vd c s = (True, onVoice (pausePostProcess vd) (s\<lparr>musCountdownTimer := ucast c\<rparr>))"

text \<open>
  Modelled from the spec: \<open>musSetCountdown\<close>, opcode 1, whose body is in
  sound\_driver.cpp: "Set countdownTimer from param, or from next byte if param==0.
  Yields."
\<close>

definition musSetCountdown :: "'a VoiceDriver \<Rightarrow> byte \<Rightarrow> 'a SoundDriver_scheme \<Rightarrow> bool \<times> 'a SoundDriver_scheme" where
  "musSetCountdown vd param s =
     (if param \<noteq> 0 then startCountdown vd param s
      else case nextByte s of
             None \<Rightarrow> endStream s
           | Some (c, s') \<Rightarrow> startCountdown vd c s')"

text \<open>
  Modelled from the spec: \<open>cmdNoOperation\<close>, opcode 3, whose body is in
  sound\_driver.cpp: "Do nothing (padding)."
\<close>

definition cmdNoOperation :: "byte \<Rightarrow> 'a SoundDriver_scheme \<Rightarrow> bool \<times> 'a SoundDriver_scheme" where
  "cmdNoOperation param s = (False, s)"

text \<open>
  Modelled from the spec: \<open>musSkipWord\<close>, opcode 5, whose body is in sound\_driver.cpp:
  two operand bytes, "Advance dataPtr by 2 (ignored data)."
\<close>

definition musSkipWord :: "byte \<Rightarrow> 'a SoundDriver_scheme \<Rightarrow> bool \<times> 'a SoundDriver_scheme" where
  "musSkipWord param s =
     (let srcP = musDataPtr s in
      case (deref srcP, deref (ptr_add srcP 1)) of
        (Some b0, Some b1) \<Rightarrow> (False, s\<lparr>musDataPtr := ptr_add srcP 2\<rparr>)
      | _ \<Rightarrow> endStream s)"

text \<open>
  A change of one channel of the table. The parameter nibble reaches 15 and the table has
  \<open>CHANNEL_COUNT\<close> entries; the specification does not say what a command does with a
  channel number beyond the table, and the model leaves the table as it is.
\<close>

definition onChannel :: "nat \<Rightarrow> (Channel \<Rightarrow> Channel) \<Rightarrow> 'a SoundDriver_scheme \<Rightarrow> 'a SoundDriver_scheme" where
  "onChannel i f s =
     (if i < length (channels s) then s\<lparr>channels := (channels s)[i := f (channels s ! i)]\<rparr>
      else s)"

text \<open>
  Modelled from the spec: \<open>cmdFreezeFrequency\<close>, opcode C, whose body is in
  sound\_driver.cpp: no operand, "Clear changeFrequency on channel param."
\<close>

definition cmdFreezeFrequency :: "byte \<Rightarrow> 'a SoundDriver_scheme \<Rightarrow> bool \<times> 'a SoundDriver_scheme" where
  "cmdFreezeFrequency param s =
     (False, onChannel (unat param) (\<lambda>c. c\<lparr>changeFrequency := False\<rparr>) s)"

text \<open>
  Modelled from the spec: \<open>cmdChangeFrequency\<close>, opcode D, whose body is in
  sound\_driver.cpp: three operand bytes, "Arm glide with (freqCtrChange, freqChange)
  operands."
\<close>

definition cmdChangeFrequency :: "'a VoiceDriver \<Rightarrow> byte \<Rightarrow> 'a SoundDriver_scheme \<Rightarrow> bool \<times> 'a SoundDriver_scheme" where
  "cmdChangeFrequency vd param s =
     (let srcP = musDataPtr s in
      case (deref srcP, deref (ptr_add srcP 1), deref (ptr_add srcP 2)) of
        (Some b0, Some b1, Some b2) \<Rightarrow>
          (case glideOperands vd b0 b1 b2 of
             (ctrChange, change) \<Rightarrow>
               (False, onChannel (unat param)
                  (\<lambda>c. c\<lparr>changeFrequency := True, freqCtrChange := ctrChange, freqChange := change\<rparr>)
                  (s\<lparr>musDataPtr := ptr_add srcP 3\<rparr>)))
      | _ \<Rightarrow> endStream s)"

text \<open>
  Modelled from the spec: \<open>musEndSubroutine\<close>, opcode E, whose body is in
  sound\_driver.cpp: "Pop a Subroutine frame; if stack empty, mark stream ended and
  yield." A popped frame resumes at its return pointer.
\<close>

definition musEndSubroutine :: "byte \<Rightarrow> 'a SoundDriver_scheme \<Rightarrow> bool \<times> 'a SoundDriver_scheme" where
  "musEndSubroutine param s =
     (case musSubroutines s of
        [] \<Rightarrow> endStream s
      | f # fs \<Rightarrow> (False, s\<lparr>musSubroutines := fs, musDataPtr := returnP f\<rparr>))"

text \<open>
  Modelled from the spec: opcode F of the music table, which sound\_driver.cpp fills:
  "(reserved) Treated as end-of-stream."
\<close>

definition musReserved :: "byte \<Rightarrow> 'a SoundDriver_scheme \<Rightarrow> bool \<times> 'a SoundDriver_scheme" where
  "musReserved param s = endStream s"

text \<open>
  Modelled from the spec: the contents of \<open>MUSIC_COMMANDS[16]\<close>, which the header
  declares and sound\_driver.cpp defines: the music opcode table of section 4.D, entries
  0 to 15 in order.
\<close>

definition MUSIC_COMMANDS :: "'a VoiceDriver \<Rightarrow> (byte \<Rightarrow> 'a SoundDriver_scheme \<Rightarrow> bool \<times> 'a SoundDriver_scheme) list" where
  "MUSIC_COMMANDS vd =
     [musCallSubroutine, musSetCountdown vd, callHook (musSetInstrument vd), cmdNoOperation,
      callHook (musSetPitchWheel vd), musSkipWord, callHook (musSetPanning vd),
      callHook (musFade vd), callHook (musStartNote vd), callHook (musSetVolume vd),
      callHook (musInjectMidi vd), callHook (musPlayInstrument vd), cmdFreezeFrequency,
      cmdChangeFrequency vd, musEndSubroutine, musReserved]"

text \<open>
  Modelled from the spec: \<open>command\<close>, whose body is in sound\_driver.cpp. Steps 2 to 4 of
  the tick loop of section 4.D: fetch one byte, split it into
  \<open>opcode = (b >> 4) & 0xF\<close> and \<open>param = b & 0xF\<close>, dispatch through the table. The
  result is the command byte dispatched (none when the stream has run off its blob,
  which ends it), the yield flag and the driver.
\<close>

definition command :: "'a VoiceDriver \<Rightarrow> 'a SoundDriver_scheme \<Rightarrow> byte list \<times> bool \<times> 'a SoundDriver_scheme" where
  "command vd s =
     (case nextByte s of
        None \<Rightarrow> ([], endStream s)
      | Some (b, s') \<Rightarrow>
          ([b], (MUSIC_COMMANDS vd ! unat (drop_bit 4 b AND 0xF)) (b AND 0xF) s'))"

text \<open>
  Modelled from the spec: the loop of \<open>execute\<close>, whose body is in sound\_driver.cpp.
  Step 5 of the tick loop: commands are fetched and dispatched until one yields. The
  result lists the command bytes dispatched, in order.
\<close>

function commandLoop :: "'a VoiceDriver \<Rightarrow> 'a SoundDriver_scheme \<Rightarrow> byte list \<times> 'a SoundDriver_scheme" where
  "commandLoop vd s =
     (case command vd s of
        (bs, True, s') \<Rightarrow> (bs, s')
      | (bs, False, s') \<Rightarrow> (case commandLoop vd s' of (cs, s'') \<Rightarrow> (bs @ cs, s'')))"
  by pat_completeness auto

text \<open>
  Modelled from the spec: the countdown step of \<open>execute\<close>, whose body is in
  sound\_driver.cpp. Step 1 of the tick loop of section 4.D: a countdown timer above 0 is
  decremented.
\<close>

definition countDown :: "'a SoundDriver_scheme \<Rightarrow> 'a SoundDriver_scheme" where
  "countDown s =
     (if 0 <s musCountdownTimer s then s\<lparr>musCountdownTimer := musCountdownTimer s - 1\<rparr>
      else s)"

text \<open>
  Modelled from the spec: \<open>execute\<close> for the music stream, whose body is in
  sound\_driver.cpp. The frame counter is incremented each tick (section 3); the
  interpreter checks \<open>playing\<close> at the top of each tick and exits early if false
  (section 5). Then the countdown step: while the timer stays above 0 the stream is
  idle this tick, with the post-processing of a countdown in progress that the header's
  comment on \<open>pausePostProcess\<close> describes; the tick that brings the timer to 0 runs the
  command loop, and so does a tick that finds it at 0. Scenario 2 of section 8 fixes
  the tick that fetches: on \<open>[0x15, 0xF0]\<close> the countdown is 5 after tick 1 and the
  stream has ended after tick 6.
\<close>

definition execute :: "'a VoiceDriver \<Rightarrow> 'a SoundDriver_scheme \<Rightarrow> byte list \<times> 'a SoundDriver_scheme" where
  "execute vd s0 =
     (let s = s0\<lparr>frameCtr := frameCtr s0 + 1\<rparr> in
      if \<not> musicPlaying s then ([], s)
      else (let s' = countDown s in
            if 0 <s musCountdownTimer s' then ([], onVoice (pausePostProcess vd) s')
            else commandLoop vd s'))"

text \<open>
  Modelled from the spec: \<open>write\<close>, whose body is in sound\_driver.cpp (the name
  \<open>write\<close> is taken in Isabelle). The header: "Adds a register write to the pending
  queue that will be flushed out to the OPL on the next timer call"; section 4.B:
  \<open>enqueue(reg, val)\<close>.
\<close>

definition write' :: "32 word \<Rightarrow> 32 word \<Rightarrow> 'a AdlibSoundDriver_scheme \<Rightarrow> 'a AdlibSoundDriver_scheme" where
  "write' reg val s = s\<lparr>queue := queue s @ [RegisterValue2 reg val]\<rparr>"

text \<open>
  Modelled from the spec: \<open>flush\<close>, whose body is in sound\_driver.cpp. The header:
  "Flushes any pending writes to the OPL"; section 4.B: \<open>drain(sink)\<close>, in FIFO order,
  without coalescing. While the queue is not empty, its front is popped and written to
  the chip.
\<close>

function flush :: "'a AdlibSoundDriver_scheme \<Rightarrow> 'a AdlibSoundDriver_scheme" where
  "flush s =
     (case queue s of
        [] \<Rightarrow> s
      | v # q \<Rightarrow> flush (s\<lparr>queue := q, opl := opl s @ [v]\<rparr>))"
  by pat_completeness auto
termination
  by (relation "measure (\<lambda>s. length (queue s))") auto

text \<open>
  Modelled from the spec: \<open>onTimer\<close>, whose body is in sound\_driver.cpp. Section 2: at
  each tick the driver drains the write queue to the chip, then runs the interpreter.
  The result lists the music command bytes dispatched in the tick.
\<close>

definition onTimer :: "'a AdlibSoundDriver_ext VoiceDriver \<Rightarrow> 'a AdlibSoundDriver_scheme
    \<Rightarrow> byte list \<times> 'a AdlibSoundDriver_scheme" where
  "onTimer vd s = execute vd (flush s)"

text \<open>
  Modelled from the spec: \<open>playSong\<close>, whose body is in sound\_driver.cpp. Section 4.E:
  "stop any current song; reset music stream; set musStartPtr = musDataPtr = blob; clear
  music sub-stack; set musicPlaying = true."
\<close>

definition playSong :: "ptr \<Rightarrow> 'a SoundDriver_scheme \<Rightarrow> 'a SoundDriver_scheme" where
  "playSong data s =
     (s\<lparr>musicPlaying := False\<rparr>)\<lparr>musCountdownTimer := 0, musStartPtr := data, musDataPtr := data,
        musSubroutines := [], musicPlaying := True\<rparr>"

text \<open>
  Modelled from the spec: \<open>songCommand\<close>, whose body is in sound\_driver.cpp. Section
  4.E gives the effect of each command and section 6 the result: zero except for
  \<open>GET_STATUS\<close>, which returns non-zero (here 1) if playing. \<open>RESTART_SONG\<close> sets
  \<open>musDataPtr = musStartPtr\<close>, clears the sub-stack and sets \<open>musicPlaying = true\<close>
  (section 4.E), and leaves the stream in the exact state of \<open>playSong\<close> (section 8,
  restart idempotence): the countdown timer is cleared, as the reset of the music stream
  in \<open>playSong\<close> clears it. The register updates that \<open>SET_VOLUME\<close> emits for the
  active channels are the parameter \<open>levels\<close>: the specification does not give the
  output level as a formula. A command identifier that is no enumerator does nothing.
\<close>

definition songCommand :: "('a AdlibSoundDriver_scheme \<Rightarrow> RegisterValue list) \<Rightarrow> 32 word \<Rightarrow> byte \<Rightarrow> byte
    \<Rightarrow> 'a AdlibSoundDriver_scheme \<Rightarrow> 32 word \<times> 'a AdlibSoundDriver_scheme" where
  "songCommand levels commandId musVol sfxVol s =
     (if commandId = MusicCommand_value STOP_SONG then (0, s\<lparr>musicPlaying := False\<rparr>)
      else if commandId = MusicCommand_value RESTART_SONG
      then (0, s\<lparr>musCountdownTimer := 0, musDataPtr := musStartPtr s, musSubroutines := [],
                musicPlaying := True\<rparr>)
      else if commandId = MusicCommand_value SET_VOLUME
      then (let s' = s\<lparr>musicVolume := ucast musVol, sfxVolume := ucast sfxVol\<rparr>
            in (0, s'\<lparr>queue := queue s' @ levels s'\<rparr>))
      else if commandId = MusicCommand_value GET_STATUS
      then (if musicPlaying s then 1 else 0, s)
      else (0, s))"

section \<open>Notions used by the properties\<close>

text \<open>
  A number of timer ticks in a row: the command bytes dispatched in each tick, and the
  driver after the last one.
\<close>

fun ticks :: "nat \<Rightarrow> 'a AdlibSoundDriver_ext VoiceDriver \<Rightarrow> 'a AdlibSoundDriver_scheme
    \<Rightarrow> byte list list \<times> 'a AdlibSoundDriver_scheme" where
  "ticks 0 vd s = ([], s)"
| "ticks (Suc n) vd s =
     (case onTimer vd s of
        (bs, s') \<Rightarrow> (case ticks n vd s' of (bss, s'') \<Rightarrow> (bs # bss, s'')))"

text \<open>
  The state of the music stream (section 3): data pointer, start pointer, subroutine
  stack, countdown timer, playing flag.
\<close>

definition musStream :: "'a SoundDriver_scheme \<Rightarrow> ptr \<times> ptr \<times> Subroutine list \<times> 32 word \<times> bool" where
  "musStream s = (musDataPtr s, musStartPtr s, musSubroutines s, musCountdownTimer s, musicPlaying s)"

text \<open>
  The driver at the entry of the command loop, in a tick of a playing stream that
  fetches: the frame counter incremented, the countdown step done.
\<close>

definition tickEntry :: "'a SoundDriver_scheme \<Rightarrow> 'a SoundDriver_scheme" where
  "tickEntry s = countDown (s\<lparr>frameCtr := frameCtr s + 1\<rparr>)"



text \<open>
  A voice driver without a voice, for concrete runs: each command reads the operand bytes
  that the table of section 4.D gives it (one for a note, the length prefix and that many
  bytes for injected MIDI) and changes nothing.
\<close>

definition skipOperands :: "nat \<Rightarrow> 'a CommandHook" where
  "skipOperands n param bytes v = (if n \<le> length bytes then Some (False, n, v) else None)"

definition skipPrefixed :: "'a CommandHook" where
  "skipPrefixed param bytes v =
     (case bytes of
        [] \<Rightarrow> None
      | l # rest \<Rightarrow> if unat l \<le> length rest then Some (False, Suc (unat l), v) else None)"

definition noGlide :: "byte \<Rightarrow> byte \<Rightarrow> byte \<Rightarrow> 32 word \<times> 32 word" where
  "noGlide b0 b1 b2 = (0, 0)"

definition noVoice :: "'a VoiceDriver" where
  "noVoice = \<lparr>musSetInstrument = skipOperands 1, musSetPitchWheel = skipOperands 2,
     musSetPanning = skipOperands 1, musFade = skipOperands 2, musStartNote = skipOperands 1,
     musSetVolume = skipOperands 1, musInjectMidi = skipPrefixed,
     musPlayInstrument = skipOperands 1, pausePostProcess = id, glideOperands = noGlide\<rparr>"

definition noLevels :: "'a AdlibSoundDriver_scheme \<Rightarrow> RegisterValue list" where
  "noLevels s = []"

text \<open>
  A driver before any song is played, for concrete runs: nine channels as their
  constructor makes them, nothing playing, nothing queued.
\<close>

definition initialDriver :: AdlibSoundDriver where
  "initialDriver = \<lparr>musSubroutines = [], fxSubroutines = [], musCountdownTimer = 0,
     fxCountdownTimer = 0, fxDataPtr = nullptr, musDataPtr = nullptr, fxStartPtr = nullptr,
     musStartPtr = nullptr, frameCtr = 0, channels = replicate CHANNEL_COUNT Channel0,
     exclude7 = False, musicPlaying = False, fxPlaying = False, opl = [], queue = [],
     musInstrumentPtrs = replicate 16 nullptr, fxInstrumentPtrs = replicate 16 nullptr,
     field180 = 0, field181 = 0, field182 = 0, musicVolume = 0, sfxVolume = 0\<rparr>"


text \<open>The driver after \<open>songCommand(STOP_SONG)\<close> with its default volume arguments.\<close>

definition stopped :: "('a AdlibSoundDriver_scheme \<Rightarrow> RegisterValue list)
    \<Rightarrow> 'a AdlibSoundDriver_scheme \<Rightarrow> 'a AdlibSoundDriver_scheme" where
  "stopped levels s = snd (songCommand levels (MusicCommand_value STOP_SONG) 0 0 s)"

text \<open>
  The register writes that an operation emits, between the driver before it and the
  driver after it: the writes the chip has received, then the writes added to the queue.
\<close>

definition emitted :: "'a AdlibSoundDriver_scheme \<Rightarrow> 'a AdlibSoundDriver_scheme \<Rightarrow> RegisterValue list" where
  "emitted s s' = drop (length (opl s)) (opl s') @ drop (length (queue s)) (queue s')"


text \<open>
  The measure of the command loop. \<open>room p\<close> is 0 outside the blob and grows towards
  its start; \<open>rank\<close> lists the room of the return pointers from the bottom of the stack
  to its top, then the room of the data pointer, padded with zeros to 17 entries.
  \<open>adv s s'\<close> are the three ways a command that does not yield moves the stream.
\<close>

fun room :: "ptr \<Rightarrow> nat" where
  "room nullptr = 0"
| "room (Ptr b i) = (if 0 \<le> i \<and> i < int (length b) then Suc (nat (int (length b) - i)) else 0)"

definition rank :: "'a SoundDriver_scheme \<Rightarrow> nat list" where
  "rank s = map (\<lambda>f. room (returnP f)) (rev (musSubroutines s))
     @ room (musDataPtr s) # replicate (16 - length (musSubroutines s)) 0"

definition adv :: "'a SoundDriver_scheme \<Rightarrow> 'a SoundDriver_scheme \<Rightarrow> bool" where
  "adv s s' \<longleftrightarrow>
     (musSubroutines s' = musSubroutines s \<and> room (musDataPtr s') \<le> room (musDataPtr s))
   \<or> (\<exists>f. musSubroutines s' = f # musSubroutines s \<and> length (musSubroutines s) < 16
          \<and> room (returnP f) \<le> room (musDataPtr s))
   \<or> (\<exists>f. musSubroutines s = f # musSubroutines s' \<and> musDataPtr s' = returnP f)"

section \<open>The command loop terminates\<close>

text \<open>
  Every command that does not yield either moves the data pointer forward, or pushes a
  frame (at most 16), or pops one and resumes behind the call that pushed it. The rank
  of the stream decreases in the lexicographic order at each such command, so the loop
  returns on every blob, whatever its calls: \<open>commandLoop\<close> is a total function.
\<close>

lemma room_fetch: "deref p = Some b \<Longrightarrow> room (ptr_add p 1) < room p"
  by (cases p) (auto split: if_splits)

lemma room_fetch_pos: "deref p = Some b \<Longrightarrow> 0 < room p"
  by (cases p) (auto split: if_splits)

lemma room_skip: "deref p = Some b \<Longrightarrow> 0 \<le> d \<Longrightarrow> room (ptr_add p d) \<le> room p"
  by (cases p) (auto split: if_splits)

lemma room_hook: "n \<le> length (bytesAt p) \<Longrightarrow> room (ptr_add p (int n)) \<le> room p"
  by (cases p) (auto split: if_splits)

lemma adv_refl: "adv s s"
  by (simp add: adv_def)

lemma callHook_adv: "callHook h param s = (False, s') \<Longrightarrow> adv s s'"
  by (auto simp: callHook_def endStream_def adv_def room_hook split: option.splits if_splits)

lemma musCallSubroutine_adv: "musCallSubroutine param s = (False, s') \<Longrightarrow> adv s s'"
  by (auto simp: musCallSubroutine_def endStream_def adv_def Let_def Subroutine2_def room_skip
      split: option.splits if_splits)

lemma musSetCountdown_adv: "musSetCountdown vd param s = (False, s') \<Longrightarrow> adv s s'"
  by (auto simp: musSetCountdown_def startCountdown_def endStream_def split: option.splits if_splits)

lemma musSkipWord_adv: "musSkipWord param s = (False, s') \<Longrightarrow> adv s s'"
  by (auto simp: musSkipWord_def endStream_def adv_def Let_def room_skip split: option.splits)

lemma onChannel_stream [simp]:
  "musSubroutines (onChannel i f s) = musSubroutines s"
  "musDataPtr (onChannel i f s) = musDataPtr s"
  "musStartPtr (onChannel i f s) = musStartPtr s"
  "musCountdownTimer (onChannel i f s) = musCountdownTimer s"
  "musicPlaying (onChannel i f s) = musicPlaying s"
  by (simp_all add: onChannel_def)

lemma cmdFreezeFrequency_adv: "cmdFreezeFrequency param s = (False, s') \<Longrightarrow> adv s s'"
  by (auto simp: cmdFreezeFrequency_def adv_def)

lemma cmdChangeFrequency_adv: "cmdChangeFrequency vd param s = (False, s') \<Longrightarrow> adv s s'"
  by (auto simp: cmdChangeFrequency_def endStream_def adv_def Let_def room_skip
      split: option.splits prod.splits)

lemma musEndSubroutine_adv: "musEndSubroutine param s = (False, s') \<Longrightarrow> adv s s'"
  by (auto simp: musEndSubroutine_def endStream_def adv_def split: list.splits)

lemma MUSIC_COMMANDS_adv:
  assumes "h \<in> set (MUSIC_COMMANDS vd)" and "h param s = (False, s')"
  shows "adv s s'"
  using assms
  by (auto simp: MUSIC_COMMANDS_def cmdNoOperation_def musReserved_def endStream_def adv_refl
      dest: callHook_adv musCallSubroutine_adv musSetCountdown_adv musSkipWord_adv
        cmdFreezeFrequency_adv cmdChangeFrequency_adv musEndSubroutine_adv)

lemma opcode_lt_16: "unat (drop_bit 4 (b :: byte) AND 0xF) < 16"
proof -
  have "drop_bit 4 b AND 0xF \<le> (0xF :: byte)"
    by (simp add: word_and_le1)
  then have "unat (drop_bit 4 b AND 0xF) \<le> unat (0xF :: byte)"
    by (simp only: word_le_nat_alt)
  then show ?thesis by simp
qed

lemma command_adv:
  assumes "command vd s = (bs, False, s')"
  shows "\<exists>b. deref (musDataPtr s) = Some b \<and> bs = [b]
     \<and> adv (s\<lparr>musDataPtr := ptr_add (musDataPtr s) 1\<rparr>) s'"
proof (cases "deref (musDataPtr s)")
  case None
  with assms show ?thesis by (simp add: command_def nextByte_def endStream_def)
next
  case (Some b)
  let ?h = "MUSIC_COMMANDS vd ! unat (drop_bit 4 b AND 0xF)"
  have "?h \<in> set (MUSIC_COMMANDS vd)"
    using opcode_lt_16 [of b] by (intro nth_mem) (simp add: MUSIC_COMMANDS_def)
  moreover have "?h (b AND 0xF) (s\<lparr>musDataPtr := ptr_add (musDataPtr s) 1\<rparr>) = (False, s')"
    and "bs = [b]"
    using assms Some by (simp_all add: command_def nextByte_def)
  ultimately show ?thesis using Some by (auto dest: MUSIC_COMMANDS_adv)
qed

lemma rank_decreases:
  assumes "deref (musDataPtr s) = Some b"
    and "adv (s\<lparr>musDataPtr := ptr_add (musDataPtr s) 1\<rparr>) s'"
  shows "(rank s', rank s) \<in> lenlex less_than"
proof -
  let ?p = "musDataPtr s" and ?stk = "musSubroutines s"
  let ?w = "map (\<lambda>f. room (returnP f))"
  have lt: "room (ptr_add ?p 1) < room ?p" and pos: "0 < room ?p"
    using assms(1) by (rule room_fetch, rule room_fetch_pos)
  from assms(2) consider
      (same) "musSubroutines s' = ?stk" "room (musDataPtr s') \<le> room (ptr_add ?p 1)"
    | (push) f where "musSubroutines s' = f # ?stk" "length ?stk < 16"
        "room (returnP f) \<le> room (ptr_add ?p 1)"
    | (pop) f where "?stk = f # musSubroutines s'" "musDataPtr s' = returnP f"
    by (auto simp: adv_def)
  then show ?thesis
  proof cases
    case same
    then have "room (musDataPtr s') < room ?p" using lt by simp
    then have "(room (musDataPtr s') # replicate (16 - length ?stk) 0,
                room ?p # replicate (16 - length ?stk) 0) \<in> lex less_than"
      by simp
    then have "(rank s', rank s) \<in> lex less_than"
      unfolding rank_def same(1) by (rule lex_append_leftI)
    then show ?thesis by (simp add: lenlex_conv rank_def same(1))
  next
    case push
    then have "room (returnP f) < room ?p" using lt by simp
    moreover have "16 - length ?stk = Suc (16 - Suc (length ?stk))"
      using push(2) by simp
    ultimately have "(room (returnP f) # room (musDataPtr s') # replicate (16 - Suc (length ?stk)) 0,
                room ?p # replicate (16 - length ?stk) 0) \<in> lex less_than"
      by simp
    then have "(?w (rev ?stk) @ room (returnP f) # room (musDataPtr s') # replicate (16 - Suc (length ?stk)) 0,
                ?w (rev ?stk) @ room ?p # replicate (16 - length ?stk) 0) \<in> lex less_than"
      by (rule lex_append_leftI)
    then have "(rank s', rank s) \<in> lex less_than"
      by (simp add: rank_def push(1))
    then show ?thesis using push(2) by (simp add: lenlex_conv rank_def push(1))
  next
    case pop
    let ?stk' = "musSubroutines s'"
    show ?thesis
    proof (cases "length ?stk' < 16")
      case True
      then have "16 - length ?stk' = Suc (16 - Suc (length ?stk'))" by simp
      then have "(replicate (16 - length ?stk') 0, room ?p # replicate (16 - Suc (length ?stk')) 0)
          \<in> lex less_than"
        using pos by simp
      then have "(?w (rev ?stk') @ room (returnP f) # replicate (16 - length ?stk') 0,
          ?w (rev ?stk') @ room (returnP f) # room ?p # replicate (16 - Suc (length ?stk')) 0)
          \<in> lex less_than"
        by (intro lex_append_leftI) simp
      then have "(rank s', rank s) \<in> lex less_than"
        by (simp add: rank_def pop)
      then show ?thesis using True by (simp add: lenlex_conv rank_def pop)
    next
      case False
      then show ?thesis by (simp add: lenlex_conv rank_def pop)
    qed
  qed
qed

termination commandLoop
proof (relation "inv_image (lenlex less_than) (\<lambda>(vd, s). rank s)", goal_cases)
  case 1
  show ?case
    by (intro wf_inv_image wf_lenlex wf_less_than)
next
  case (2 vd s bs y brk s')
  then have "command vd s = (bs, False, s')" by simp
  then obtain b where "deref (musDataPtr s) = Some b"
    and "adv (s\<lparr>musDataPtr := ptr_add (musDataPtr s) 1\<rparr>) s'"
    using command_adv by blast
  then have "(rank s', rank s) \<in> lenlex less_than" by (rule rank_decreases)
  then show ?case
    by simp
qed

section \<open>Ticks of the music stream\<close>

declare commandLoop.simps [simp del] flush.simps [simp del] ticks.simps(2) [simp del]

lemma flush_result: "flush s = s\<lparr>queue := [], opl := opl s @ queue s\<rparr>"
proof (induction s rule: flush.induct)
  case (1 s)
  show ?case
  proof (cases "queue s")
    case Nil
    then show ?thesis by (subst flush.simps) simp
  next
    case (Cons v q)
    then show ?thesis using 1 [OF Cons] by (subst flush.simps) simp
  qed
qed



lemma musStream_onVoice [simp]: "musStream (onVoice f s) = musStream s"
  by (simp add: onVoice_def musStream_def split: prod.splits)

lemma musStream_flush [simp]: "musStream (flush s) = musStream s"
  by (simp add: flush_result musStream_def)

lemma flush_stream [simp]:
  "musDataPtr (flush s) = musDataPtr s"
  "musStartPtr (flush s) = musStartPtr s"
  "musSubroutines (flush s) = musSubroutines s"
  "musCountdownTimer (flush s) = musCountdownTimer s"
  "musicPlaying (flush s) = musicPlaying s"
  by (simp_all add: flush_result)

lemma musStream_frameCtr [simp]: "musStream (s\<lparr>frameCtr := n\<rparr>) = musStream s"
  by (simp add: musStream_def)


lemma tickEntry_stream [simp]:
  "musDataPtr (tickEntry s) = musDataPtr s"
  "musStartPtr (tickEntry s) = musStartPtr s"
  "musSubroutines (tickEntry s) = musSubroutines s"
  "musicPlaying (tickEntry s) = musicPlaying s"
  "musCountdownTimer (tickEntry s) = musCountdownTimer (countDown s)"
  by (simp_all add: tickEntry_def countDown_def)

lemma countDown_flush [simp]: "musCountdownTimer (countDown (flush s)) = musCountdownTimer (countDown s)"
  by (simp add: countDown_def)






lemma onVoice_startPtr [simp]: "musStartPtr (onVoice f s) = musStartPtr s"
  by (simp add: onVoice_def split: prod.splits)










section \<open>Scenarios of section 8 on the model\<close>

text \<open>
  Scenario 1, the empty song \<open>[0xF0]\<close>: after one tick the music has stopped and nothing
  was written to the chip or queued.
\<close>

lemma scenario_empty_song:
  "fst (ticks 1 noVoice (playSong (Ptr [0xF0] 0) initialDriver)) = [[0xF0]]
   \<and> \<not> musicPlaying (snd (ticks 1 noVoice (playSong (Ptr [0xF0] 0) initialDriver)))
   \<and> opl (snd (ticks 1 noVoice (playSong (Ptr [0xF0] 0) initialDriver))) = []
   \<and> queue (snd (ticks 1 noVoice (playSong (Ptr [0xF0] 0) initialDriver))) = []"
  by code_simp

text \<open>
  Scenario 2, a pure countdown \<open>[0x15, 0xF0]\<close>: after tick 1 the countdown is 5 and the
  music plays; ticks 2 to 5 are idle; tick 6 fetches the end of the stream.
\<close>

lemma scenario_pure_countdown:
  "fst (ticks 6 noVoice (playSong (Ptr [0x15, 0xF0] 0) initialDriver))
     = [[0x15], [], [], [], [], [0xF0]]
   \<and> musCountdownTimer (snd (ticks 1 noVoice (playSong (Ptr [0x15, 0xF0] 0) initialDriver))) = 5
   \<and> musicPlaying (snd (ticks 1 noVoice (playSong (Ptr [0x15, 0xF0] 0) initialDriver)))
   \<and> musicPlaying (snd (ticks 5 noVoice (playSong (Ptr [0x15, 0xF0] 0) initialDriver)))
   \<and> \<not> musicPlaying (snd (ticks 6 noVoice (playSong (Ptr [0x15, 0xF0] 0) initialDriver)))"
  by code_simp

text \<open>
  Scenario 4, a subroutine: the call at offset 0 enters the body at offset 5 (a no-op and
  an end of subroutine), returns to offset 3, starts a countdown of 5, and the stream
  ends when the countdown has run down. The stack is empty again after the first tick.
\<close>

lemma scenario_subroutine:
  "fst (ticks 6 noVoice
      (playSong (Ptr [0x00, 0x04, 0x00, 0x15, 0xF0, 0x30, 0xE0, 0xF0] 0) initialDriver))
     = [[0x00, 0x30, 0xE0, 0x15], [], [], [], [], [0xF0]]
   \<and> musSubroutines (snd (ticks 1 noVoice
      (playSong (Ptr [0x00, 0x04, 0x00, 0x15, 0xF0, 0x30, 0xE0, 0xF0] 0) initialDriver))) = []"
  by code_simp

section \<open>Properties of the header's code\<close>

text \<open>
  C8. \<open>isPlaying()\<close> returns exactly the \<open>_musicPlaying\<close> flag, in every driver state, and
  leaves the driver as it was.
\<close>

theorem isPlaying_returns_flag:
  "fst (isPlaying s) = musicPlaying s \<and> snd (isPlaying s) = s"
  by (simp add: isPlaying_def)

text \<open>
  C9. The command enumeration has exactly four members, with the values
  \<open>STOP_SONG = 0\<close>, \<open>RESTART_SONG = 1\<close>, \<open>SET_VOLUME = 0x100\<close> and \<open>GET_STATUS = 0xFFE0\<close>.
\<close>

theorem MusicCommand_values:
  "unat (MusicCommand_value STOP_SONG) = 0
   \<and> unat (MusicCommand_value RESTART_SONG) = 1
   \<and> unat (MusicCommand_value SET_VOLUME) = 256
   \<and> unat (MusicCommand_value GET_STATUS) = 65504
   \<and> (UNIV :: MusicCommand set) = {STOP_SONG, RESTART_SONG, SET_VOLUME, GET_STATUS}"
proof -
  have "c \<in> {STOP_SONG, RESTART_SONG, SET_VOLUME, GET_STATUS}" for c
    by (cases c) simp_all
  then have "(UNIV :: MusicCommand set) = {STOP_SONG, RESTART_SONG, SET_VOLUME, GET_STATUS}"
    by blast
  then show ?thesis by simp
qed

text \<open>
  C10. For every pair of \<open>int\<close> arguments, the constructor of \<open>RegisterValue\<close> stores the
  register number modulo 256 and the value modulo 256; every \<open>RegisterValue\<close>, hence
  every element of the write queue, carries an 8-bit register number and an 8-bit value.
\<close>

theorem RegisterValue_truncates:
  "uint (regNum (RegisterValue2 r v)) = sint r mod 256
   \<and> uint (regVal (RegisterValue2 r v)) = sint v mod 256
   \<and> uint (regNum (rv :: RegisterValue)) < 256 \<and> uint (regVal rv) < 256"
proof -
  have trunc: "uint (ucast w :: byte) = sint w mod 256" for w :: "32 word"
  proof -
    have "uint (ucast w :: byte) = take_bit 8 (uint w)"
      by (simp add: unsigned_ucast_eq)
    also have "\<dots> = take_bit 8 (take_bit 32 (sint w))"
      by (simp add: uint_sint)
    also have "\<dots> = take_bit 8 (sint w)"
      by simp
    finally show ?thesis by (simp add: take_bit_eq_mod)
  qed
  have bound: "uint (b :: byte) < 256" for b
    using uint_bounded [of b] by simp
  show ?thesis
    by (simp add: RegisterValue2_def trunc bound)
qed


section \<open>Properties of the modelled driver\<close>




text \<open>
  C5. After \<open>flush\<close> the write queue is empty, whatever it held, and the chip has
  received exactly the queued writes, after those it had, in the order of the queue.
\<close>

theorem flush_empties_queue:
  "queue (flush s) = []
   \<and> opl (flush s) = opl s @ queue s
   \<and> emitted s (flush s) = queue s
   \<and> flush s = s\<lparr>queue := [], opl := opl s @ queue s\<rparr>"
proof -
  have "flush s = s\<lparr>queue := [], opl := opl s @ queue s\<rparr>"
    by (rule flush_result)
  then show ?thesis
    by (simp add: emitted_def)
qed

text \<open>
  C6. \<open>songCommand(GET_STATUS)\<close> returns a non-zero value exactly when music is
  playing; for \<open>STOP_SONG\<close>, \<open>RESTART_SONG\<close> and \<open>SET_VOLUME\<close> it returns zero.
\<close>

theorem songCommand_result:
  "(fst (songCommand levels (MusicCommand_value GET_STATUS) musVol sfxVol s) \<noteq> 0) = musicPlaying s
   \<and> fst (songCommand levels (MusicCommand_value STOP_SONG) musVol sfxVol s) = 0
   \<and> fst (songCommand levels (MusicCommand_value RESTART_SONG) musVol sfxVol s) = 0
   \<and> fst (songCommand levels (MusicCommand_value SET_VOLUME) musVol sfxVol s) = 0"
  by (simp add: songCommand_def Let_def)

text \<open>
  C7. Two \<open>songCommand(STOP_SONG)\<close> in a row leave the driver as one does, and the
  register writes of the second are among those of the first.
\<close>

theorem stop_idempotence:
  "stopped levels (stopped levels s) = stopped levels s
   \<and> set (emitted (stopped levels s) (stopped levels (stopped levels s)))
       \<subseteq> set (emitted s (stopped levels s))"
  by (simp add: stopped_def songCommand_def emitted_def)

end
